theory Spec2Isabelle
  imports Main
begin

section \<open>Python values and exceptions\<close>

text \<open>
  The values that travel between the caller, the adaptor and the database driver:
  \<open>None\<close>, integers, text, the two byte-sequence types and lists. Text and byte
  sequences both carry a \<open>string\<close>; for text it is read as the UTF-8 encoding of the
  characters. Floats and booleans do not occur in the modelled paths.
\<close>

datatype pyval =
    PyNone
  | PyInt int
  | PyStr string
  | PyBytes string
  | PyByteArray string
  | PyList "pyval list"

text \<open>
  Exceptions are values. A message built with \<open>%\<close> formatting is kept as its
  template, with the placeholder unfilled; \<open>KeyError(key)\<close> carries the key.
  \<open>BackendError\<close> stands for whatever the driver raises.
\<close>

datatype pyerr =
    KeyError pyval
  | IndexError string
  | TypeError string
  | ValueError string
  | AttributeError string
  | AssertionError string
  | IntegrityError string
  | UnicodeDecodeError
  | BackendError string

text \<open>Truth value testing, \<open>bool(x)\<close> and \<open>if x:\<close>.\<close>

fun py_bool :: "pyval \<Rightarrow> bool" where
  "py_bool PyNone = False"
| "py_bool (PyInt i) = (i \<noteq> 0)"
| "py_bool (PyStr s) = (s \<noteq> [])"
| "py_bool (PyBytes s) = (s \<noteq> [])"
| "py_bool (PyByteArray s) = (s \<noteq> [])"
| "py_bool (PyList xs) = (xs \<noteq> [])"

text \<open>The byte-sequence types, \<open>isinstance(s, (bytes, bytearray))\<close>.\<close>

fun is_bytes :: "pyval \<Rightarrow> bool" where
  "is_bytes (PyBytes s) = True"
| "is_bytes (PyByteArray s) = True"
| "is_bytes v = False"

subsection \<open>Integer conversion\<close>

text \<open>
  \<open>int(x)\<close> on text: surrounding whitespace is stripped, one sign is allowed, and the
  rest must be a non-empty run of decimal digits. Text is taken as ASCII here; digit
  grouping with underscores and non-ASCII digits are outside the model.
\<close>

definition is_space :: "char \<Rightarrow> bool" where
  "is_space c = (c \<in> set [CHR '' '', CHR 0x09, CHR 0x0A, CHR 0x0B, CHR 0x0C, CHR 0x0D])"

definition is_digit :: "char \<Rightarrow> bool" where
  "is_digit c = (48 \<le> (of_char c :: nat) \<and> (of_char c :: nat) \<le> 57)"

definition py_strip :: "string \<Rightarrow> string" where
  "py_strip s = rev (dropWhile is_space (rev (dropWhile is_space s)))"

definition digits_value :: "string \<Rightarrow> nat" where
  "digits_value ds = foldl (\<lambda>a c. 10 * a + (of_char c - 48)) 0 ds"

definition int_of_text :: "string \<Rightarrow> int option" where
  "int_of_text s =
     (let t = py_strip s;
          neg = (case t of c # _ \<Rightarrow> c = CHR ''-'' | [] \<Rightarrow> False);
          ds = (case t of c # r \<Rightarrow> if c = CHR ''-'' \<or> c = CHR ''+'' then r else t | [] \<Rightarrow> t)
      in if ds \<noteq> [] \<and> list_all is_digit ds
         then Some (if neg then - int (digits_value ds) else int (digits_value ds))
         else None)"

definition invalid_literal :: string where
  "invalid_literal = ''invalid literal for int() with base 10: %r''"

definition int_bad_type :: string where
  "int_bad_type = ''int() argument must be a string, a bytes-like object or a number, not %r''"

fun py_int :: "pyval \<Rightarrow> pyerr + int" where
  "py_int (PyInt i) = Inr i"
| "py_int (PyStr s) =
     (case int_of_text s of Some i \<Rightarrow> Inr i | None \<Rightarrow> Inl (ValueError invalid_literal))"
| "py_int (PyBytes s) =
     (case int_of_text s of Some i \<Rightarrow> Inr i | None \<Rightarrow> Inl (ValueError invalid_literal))"
| "py_int (PyByteArray s) =
     (case int_of_text s of Some i \<Rightarrow> Inr i | None \<Rightarrow> Inl (ValueError invalid_literal))"
| "py_int PyNone = Inl (TypeError int_bad_type)"
| "py_int (PyList xs) = Inl (TypeError int_bad_type)"

subsection \<open>Splitting text\<close>

text \<open>\<open>s.split(c)\<close> for a one-character separator: always at least one piece.\<close>

fun split_on :: "char \<Rightarrow> string \<Rightarrow> string list" where
  "split_on c [] = [[]]"
| "split_on c (x # xs) =
     (if x = c then [] # split_on c xs
      else (case split_on c xs of w # ws \<Rightarrow> (x # w) # ws | [] \<Rightarrow> [[x]]))"

text \<open>\<open>s.count(c)\<close>.\<close>

definition py_count :: "string \<Rightarrow> char \<Rightarrow> nat" where
  "py_count s c = length (filter (\<lambda>x. x = c) s)"

subsection \<open>Decoding byte sequences\<close>

text \<open>
  Well-formed UTF-8 (Unicode 3.9, table 3-7), on the byte values: the strict decoder
  rejects overlong forms, surrogates and code points above U+10FFFF.
\<close>

definition in_range :: "nat \<Rightarrow> nat \<Rightarrow> nat \<Rightarrow> bool" where
  "in_range b lo hi = (lo \<le> b \<and> b \<le> hi)"

fun utf8_ok :: "nat list \<Rightarrow> bool" where
  "utf8_ok [] = True"
| "utf8_ok (b # bs) =
     (if b \<le> 127 then utf8_ok bs
      else if in_range b 194 223 then
        (case bs of c1 # r \<Rightarrow> in_range c1 128 191 \<and> utf8_ok r | _ \<Rightarrow> False)
      else if in_range b 224 239 then
        (case bs of
           c1 # c2 # r \<Rightarrow>
             in_range c1 (if b = 224 then 160 else 128) (if b = 237 then 159 else 191)
             \<and> in_range c2 128 191 \<and> utf8_ok r
         | _ \<Rightarrow> False)
      else if in_range b 240 244 then
        (case bs of
           c1 # c2 # c3 # r \<Rightarrow>
             in_range c1 (if b = 240 then 144 else 128) (if b = 244 then 143 else 191)
             \<and> in_range c2 128 191 \<and> in_range c3 128 191 \<and> utf8_ok r
         | _ \<Rightarrow> False)
      else False)"

text \<open>\<open>elem.decode("utf-8")\<close>: the text, or \<open>UnicodeDecodeError\<close>.\<close>

definition decode_utf8 :: "string \<Rightarrow> pyerr + pyval" where
  "decode_utf8 s = (if utf8_ok (map of_char s) then Inr (PyStr s) else Inl UnicodeDecodeError)"

text \<open>
  Modelled from the spec: \<open>Bio._py3k._bytes_bytearray_to_str\<close>, imported as
  \<open>bytearray_to_str\<close>, is not among the sources. The spec has the specialised adaptor
  decode every returned byte-sequence field to text (UTF-8) and leave other values alone.
\<close>

fun bytearray_to_str :: "pyval \<Rightarrow> pyerr + pyval" where
  "bytearray_to_str (PyBytes s) = decode_utf8 s"
| "bytearray_to_str (PyByteArray s) = decode_utf8 s"
| "bytearray_to_str v = Inr v"

text \<open>A comprehension whose body may raise: the first exception ends it.\<close>

fun map_err :: "('a \<Rightarrow> pyerr + 'b) \<Rightarrow> 'a list \<Rightarrow> pyerr + 'b list" where
  "map_err f [] = Inr []"
| "map_err f (x # xs) =
     (case f x of
        Inl e \<Rightarrow> Inl e
      | Inr y \<Rightarrow> (case map_err f xs of Inl e \<Rightarrow> Inl e | Inr ys \<Rightarrow> Inr (y # ys)))"

section \<open>Bio.TreeIO: the format dispatcher\<close>

text \<open>
  \<open>PhyloXMLIO\<close> is an external module: its \<open>read\<close> and \<open>write\<close> are parameters. Both
  work on a stream, so they return the stream they leave behind. A Python function
  that falls off its end returns \<open>None\<close>: the result \<open>Inr None\<close>.
\<close>

definition read ::
  "('f \<Rightarrow> (pyerr + 't) \<times> 'f) \<Rightarrow> 'f \<Rightarrow> string \<Rightarrow> (pyerr + 't option) \<times> 'f" where
  "read PhyloXMLIO_read file format =
     (if format = ''phyloxml'' then
        (case PhyloXMLIO_read file of
           (Inl e, file') \<Rightarrow> (Inl e, file')
         | (Inr t, file') \<Rightarrow> (Inr (Some t), file'))
      else (Inr None, file))"

definition "write" ::
  "('o \<Rightarrow> 'f \<Rightarrow> 'e option \<Rightarrow> (pyerr + 'r) \<times> 'f) \<Rightarrow> 'o \<Rightarrow> 'f \<Rightarrow> string \<Rightarrow> 'e option
     \<Rightarrow> (pyerr + 'r option) \<times> 'f" where
  "write PhyloXMLIO_write obj file format encoding =
     (if format = ''phyloxml'' then
        (case PhyloXMLIO_write obj file encoding of
           (Inl e, file') \<Rightarrow> (Inl e, file')
         | (Inr r, file') \<Rightarrow> (Inr (Some r), file'))
      else (Inr None, file))"

section \<open>Actions: state passing with exceptions\<close>

text \<open>
  A method that touches the connection takes the state and returns the state it leaves
  behind together with either the exception raised or the value returned. A raise
  keeps the effects that came before it.
\<close>

type_synonym ('st, 'a) action = "'st \<Rightarrow> (pyerr + 'a) \<times> 'st"

definition return :: "'a \<Rightarrow> ('st, 'a) action" where
  "return x s = (Inr x, s)"

definition raise :: "pyerr \<Rightarrow> ('st, 'a) action" where
  "raise e s = (Inl e, s)"

definition lift :: "pyerr + 'a \<Rightarrow> ('st, 'a) action" where
  "lift r s = (r, s)"

definition bind :: "('st, 'a) action \<Rightarrow> ('a \<Rightarrow> ('st, 'b) action) \<Rightarrow> ('st, 'b) action" where
  "bind m f s = (case m s of (Inl e, s') \<Rightarrow> (Inl e, s') | (Inr x, s') \<Rightarrow> f x s')"

section \<open>BioSQL.BioSeqDatabase: the driver adaptor\<close>

text \<open>
  A statement is the SQL text with its \<open>%s\<close> placeholders, as the source passes it to
  the driver next to the argument tuple (\<open>Sql\<close>), or a text into which Python's \<open>%\<close>
  operator has already put the values (\<open>Sql_percent\<close>, the values kept beside the
  template).
\<close>

datatype sql = Sql string | Sql_percent string "pyval list"

type_synonym row = "pyval list"

datatype adaptor_kind = Adaptor | MysqlConnectorAdaptor

text \<open>
  The adaptor object: its class, whether the cursor is a \<open>_CursorWrapper\<close>, the
  connection (all the state behind the driver, of any type), the rows the cursor still
  holds from the last statement, and \<open>dbutils.execute\<close>, which runs a statement on the
  connection and yields the rows of its result, or raises. An argument tuple that is
  \<open>None\<close> or empty is the empty list. The Jython branch of \<open>execute\<close>
  (\<open>os.name == "java"\<close>) is not modelled.
\<close>

record 's adaptor =
  kind :: adaptor_kind
  wrap_cursor :: bool
  conn :: 's
  result_set :: "row list"
  dbutils_execute :: "sql \<Rightarrow> pyval list \<Rightarrow> 's \<Rightarrow> (pyerr + row list) \<times> 's"

subsection \<open>The cursor and its wrapper\<close>

text \<open>\<open>_CursorWrapper._convert_tuple\<close>: only an element whose type is exactly \<open>bytes\<close>.\<close>

definition convert_tuple :: "row \<Rightarrow> pyerr + row" where
  "convert_tuple tup =
     map_err (\<lambda>elem. case elem of PyBytes s \<Rightarrow> decode_utf8 s | _ \<Rightarrow> Inr elem) tup"

definition convert_list :: "row list \<Rightarrow> pyerr + row list" where
  "convert_list lst = map_err convert_tuple lst"

definition cursor_fetchall :: "('s adaptor, row list) action" where
  "cursor_fetchall a =
     (let rv = result_set a; a' = a\<lparr>result_set := []\<rparr>
      in if wrap_cursor a then (convert_list rv, a') else (Inr rv, a'))"


text \<open>\<open>t[0]\<close> on a tuple or a list, and \<open>rv[0][0]\<close>.\<close>

definition item0 :: "'a list \<Rightarrow> pyerr + 'a" where
  "item0 t = (case t of [] \<Rightarrow> Inl (IndexError ''index out of range'') | x # _ \<Rightarrow> Inr x)"

definition item00 :: "'a list list \<Rightarrow> pyerr + 'a" where
  "item00 rv = (case item0 rv of Inl e \<Rightarrow> Inl e | Inr t \<Rightarrow> item0 t)"

subsection \<open>Adaptor\<close>

definition execute :: "sql \<Rightarrow> pyval list \<Rightarrow> ('s adaptor, unit) action" where
  "execute sql args a =
     (case dbutils_execute a sql args (conn a) of
        (Inl e, c) \<Rightarrow> (Inl e, a\<lparr>conn := c\<rparr>)
      | (Inr rows, c) \<Rightarrow> (Inr (), a\<lparr>conn := c, result_set := rows\<rparr>))"

definition fetch_dbid_by_dbname :: "pyval \<Rightarrow> ('s adaptor, pyval) action" where
  "fetch_dbid_by_dbname dbname =
     bind (execute (Sql ''select biodatabase_id from biodatabase where name = %s'') [dbname])
       (\<lambda>_. bind cursor_fetchall
         (\<lambda>rv. if rv = [] then raise (KeyError (PyStr ''Cannot find biodatabase with name %r''))
               else lift (item00 rv)))"

text \<open>
  The four single-record lookups share one shape: \<open>if dbid:\<close> adds the namespace
  clause and its argument, the statement runs, and the rows are read from the cursor
  itself.
\<close>

definition fetch_seqid_by_display_id :: "pyval \<Rightarrow> pyval \<Rightarrow> ('s adaptor, pyval) action" where
  "fetch_seqid_by_display_id dbid name =
     (let sql = ''select bioentry_id from bioentry where name = %s'';
          fields = [name];
          sql = (if py_bool dbid then sql @ '' and biodatabase_id = %s'' else sql);
          fields = (if py_bool dbid then fields @ [dbid] else fields)
      in bind (execute (Sql sql) fields)
           (\<lambda>_. bind cursor_fetchall
             (\<lambda>rv. if rv = [] then raise (IndexError ''Cannot find display id %r'')
                   else if length rv > 1
                     then raise (IndexError ''More than one entry with display id %r'')
                   else lift (item00 rv))))"

definition fetch_seqid_by_accession :: "pyval \<Rightarrow> pyval \<Rightarrow> ('s adaptor, pyval) action" where
  "fetch_seqid_by_accession dbid name =
     (let sql = ''select bioentry_id from bioentry where accession = %s'';
          fields = [name];
          sql = (if py_bool dbid then sql @ '' and biodatabase_id = %s'' else sql);
          fields = (if py_bool dbid then fields @ [dbid] else fields)
      in bind (execute (Sql sql) fields)
           (\<lambda>_. bind cursor_fetchall
             (\<lambda>rv. if rv = [] then raise (IndexError ''Cannot find accession %r'')
                   else if length rv > 1
                     then raise (IndexError ''More than one entry with accession %r'')
                   else lift (item00 rv))))"

text \<open>
  \<open>name.split(".")\<close> needs text: on a byte sequence the text separator is a
  \<open>TypeError\<close>, on anything else there is no \<open>split\<close>.
\<close>

definition fetch_seqid_by_version :: "pyval \<Rightarrow> pyval \<Rightarrow> ('s adaptor, pyval) action" where
  "fetch_seqid_by_version dbid name =
     (case name of
        PyStr s \<Rightarrow>
          (let acc_version = split_on CHR ''.'' s
           in if length acc_version > 2 then raise (IndexError ''Bad version %r'')
              else
                bind (lift (item0 acc_version))
                  (\<lambda>acc.
                    (let version = (if length acc_version = 2 then acc_version ! 1 else ''0'');
                         sql = ''SELECT bioentry_id FROM bioentry WHERE accession = %s''
                                 @ '' AND version = %s'';
                         fields = [PyStr acc, PyStr version];
                         sql = (if py_bool dbid then sql @ '' and biodatabase_id = %s'' else sql);
                         fields = (if py_bool dbid then fields @ [dbid] else fields)
                     in bind (execute (Sql sql) fields)
                          (\<lambda>_. bind cursor_fetchall
                            (\<lambda>rv. if rv = [] then raise (IndexError ''Cannot find version %r'')
                                  else if length rv > 1
                                    then raise (IndexError ''More than one entry with version %r'')
                                  else lift (item00 rv))))))
      | PyBytes s \<Rightarrow> raise (TypeError ''a bytes-like object is required, not %r'')
      | PyByteArray s \<Rightarrow> raise (TypeError ''a bytes-like object is required, not %r'')
      | _ \<Rightarrow> raise (AttributeError ''%r object has no attribute %r''))"

definition fetch_seqid_by_identifier :: "pyval \<Rightarrow> pyval \<Rightarrow> ('s adaptor, pyval) action" where
  "fetch_seqid_by_identifier dbid identifier =
     (let sql = ''SELECT bioentry_id FROM bioentry WHERE identifier = %s'';
          fields = [identifier];
          sql = (if py_bool dbid then sql @ '' and biodatabase_id = %s'' else sql);
          fields = (if py_bool dbid then fields @ [dbid] else fields)
      in bind (execute (Sql sql) fields)
           (\<lambda>_. bind cursor_fetchall
             (\<lambda>rv. if rv = [] then raise (IndexError ''Cannot find display id %r'')
                   else lift (item00 rv))))"

text \<open>The three fetch helpers of the base class.\<close>

definition Adaptor_execute_one :: "sql \<Rightarrow> pyval list \<Rightarrow> ('s adaptor, row) action" where
  "Adaptor_execute_one sql args =
     bind (execute sql args)
       (\<lambda>_. bind cursor_fetchall
         (\<lambda>rv. if length rv = 1 then lift (item0 rv)
               else raise (AssertionError ''Expected 1 response, got %d'')))"

definition Adaptor_execute_and_fetch_col0 ::
  "sql \<Rightarrow> pyval list \<Rightarrow> ('s adaptor, pyval list) action" where
  "Adaptor_execute_and_fetch_col0 sql args =
     bind (execute sql args)
       (\<lambda>_. bind cursor_fetchall (\<lambda>rv. lift (map_err item0 rv)))"

definition Adaptor_execute_and_fetchall ::
  "sql \<Rightarrow> pyval list \<Rightarrow> ('s adaptor, row list) action" where
  "Adaptor_execute_and_fetchall sql args = bind (execute sql args) (\<lambda>_. cursor_fetchall)"

subsection \<open>MysqlConnectorAdaptor\<close>

text \<open>The subclass overrides exactly these three; each calls the base method first.\<close>

definition MysqlConnectorAdaptor_execute_one ::
  "sql \<Rightarrow> pyval list \<Rightarrow> ('s adaptor, row) action" where
  "MysqlConnectorAdaptor_execute_one sql args =
     bind (Adaptor_execute_one sql args) (\<lambda>out. lift (map_err bytearray_to_str out))"

definition MysqlConnectorAdaptor_execute_and_fetch_col0 ::
  "sql \<Rightarrow> pyval list \<Rightarrow> ('s adaptor, pyval list) action" where
  "MysqlConnectorAdaptor_execute_and_fetch_col0 sql args =
     bind (Adaptor_execute_and_fetch_col0 sql args)
       (\<lambda>out. lift (map_err bytearray_to_str out))"

definition MysqlConnectorAdaptor_execute_and_fetchall ::
  "sql \<Rightarrow> pyval list \<Rightarrow> ('s adaptor, row list) action" where
  "MysqlConnectorAdaptor_execute_and_fetchall sql args =
     bind (Adaptor_execute_and_fetchall sql args)
       (\<lambda>out. lift (map_err (map_err bytearray_to_str) out))"

subsection \<open>Method dispatch on the adaptor's class\<close>

definition execute_one :: "sql \<Rightarrow> pyval list \<Rightarrow> ('s adaptor, row) action" where
  "execute_one sql args a =
     (case kind a of
        Adaptor \<Rightarrow> Adaptor_execute_one sql args a
      | MysqlConnectorAdaptor \<Rightarrow> MysqlConnectorAdaptor_execute_one sql args a)"

definition execute_and_fetch_col0 :: "sql \<Rightarrow> pyval list \<Rightarrow> ('s adaptor, pyval list) action" where
  "execute_and_fetch_col0 sql args a =
     (case kind a of
        Adaptor \<Rightarrow> Adaptor_execute_and_fetch_col0 sql args a
      | MysqlConnectorAdaptor \<Rightarrow> MysqlConnectorAdaptor_execute_and_fetch_col0 sql args a)"

definition execute_and_fetchall :: "sql \<Rightarrow> pyval list \<Rightarrow> ('s adaptor, row list) action" where
  "execute_and_fetchall sql args a =
     (case kind a of
        Adaptor \<Rightarrow> Adaptor_execute_and_fetchall sql args a
      | MysqlConnectorAdaptor \<Rightarrow> MysqlConnectorAdaptor_execute_and_fetchall sql args a)"

subsection \<open>Listings, built on the column helper\<close>

definition fetch_seqids_by_accession :: "pyval \<Rightarrow> pyval \<Rightarrow> ('s adaptor, pyval list) action" where
  "fetch_seqids_by_accession dbid name =
     (let sql = ''select bioentry_id from bioentry where accession = %s'';
          fields = [name];
          sql = (if py_bool dbid then sql @ '' and biodatabase_id = %s'' else sql);
          fields = (if py_bool dbid then fields @ [dbid] else fields)
      in execute_and_fetch_col0 (Sql sql) fields)"

definition list_biodatabase_names :: "('s adaptor, pyval list) action" where
  "list_biodatabase_names = execute_and_fetch_col0 (Sql ''SELECT name FROM biodatabase'') []"

definition list_bioentry_ids :: "pyval \<Rightarrow> ('s adaptor, pyval list) action" where
  "list_bioentry_ids dbid =
     execute_and_fetch_col0
       (Sql ''SELECT bioentry_id FROM bioentry WHERE biodatabase_id = %s'') [dbid]"

definition list_bioentry_display_ids :: "pyval \<Rightarrow> ('s adaptor, pyval list) action" where
  "list_bioentry_display_ids dbid =
     execute_and_fetch_col0 (Sql ''SELECT name FROM bioentry WHERE biodatabase_id = %s'') [dbid]"

definition list_any_ids :: "sql \<Rightarrow> pyval list \<Rightarrow> ('s adaptor, pyval list) action" where
  "list_any_ids sql args = execute_and_fetch_col0 sql args"

section \<open>BioSQL.BioSeqDatabase: the namespace directory (DBServer)\<close>

definition DBServer_len :: "('s adaptor, int) action" where
  "DBServer_len =
     bind (execute_and_fetch_col0 (Sql ''SELECT COUNT(name) FROM biodatabase;'') [])
       (\<lambda>col. bind (lift (item0 col)) (\<lambda>c. lift (py_int c)))"

definition DBServer_contains :: "pyval \<Rightarrow> ('s adaptor, bool) action" where
  "DBServer_contains value =
     bind (execute_and_fetch_col0
             (Sql ''SELECT COUNT(name) FROM biodatabase WHERE name=%s;'') [value])
       (\<lambda>col. bind (lift (item0 col)) (\<lambda>c. return (py_bool c)))"

definition DBServer_iter :: "('s adaptor, pyval list) action" where
  "DBServer_iter = list_biodatabase_names"

text \<open>
  \<open>Loader.DatabaseRemover(adaptor, db_id).remove()\<close> lives in another module: the
  removal routine is the parameter \<open>DatabaseRemover_remove\<close>.
\<close>

definition DBServer_delitem ::
  "(pyval \<Rightarrow> ('s adaptor, unit) action) \<Rightarrow> pyval \<Rightarrow> ('s adaptor, unit) action" where
  "DBServer_delitem DatabaseRemover_remove name =
     bind (DBServer_contains name)
       (\<lambda>present. if \<not> present then raise (KeyError name)
                  else bind (fetch_dbid_by_dbname name) (\<lambda>db_id. DatabaseRemover_remove db_id))"

section \<open>BioSQL.BioSeqDatabase: the namespace (BioSeqDatabase)\<close>

text \<open>
  The namespace object holds its name and the id resolved when it was built; the adaptor
  it shares with the directory is the state every method works on.
\<close>

record BioSeqDatabase =
  name :: pyval
  dbid :: pyval

definition BioSeqDatabase_init :: "pyval \<Rightarrow> ('s adaptor, BioSeqDatabase) action" where
  "BioSeqDatabase_init nm =
     bind (fetch_dbid_by_dbname nm) (\<lambda>d. return \<lparr>name = nm, dbid = d\<rparr>)"

definition DBServer_getitem :: "pyval \<Rightarrow> ('s adaptor, BioSeqDatabase) action" where
  "DBServer_getitem nm = BioSeqDatabase_init nm"

definition new_database ::
  "pyval \<Rightarrow> pyval \<Rightarrow> pyval \<Rightarrow> ('s adaptor, BioSeqDatabase) action" where
  "new_database db_name authority description =
     bind (execute
             (Sql (''INSERT INTO biodatabase (name, authority, description)''
                   @ '' VALUES (%s, %s, %s)''))
             [db_name, authority, description])
       (\<lambda>_. BioSeqDatabase_init db_name)"

text \<open>
  \<open>__getitem__\<close> builds \<open>BioSeq.DBSeqRecord(self.adaptor, key)\<close>. That class is in
  another module: its constructor is the parameter \<open>DBSeqRecord\<close>, which receives the
  adaptor (the state) and the key, as in the source.
\<close>

definition BioSeqDatabase_getitem ::
  "(pyval \<Rightarrow> ('s adaptor, 'r) action) \<Rightarrow> BioSeqDatabase \<Rightarrow> pyval \<Rightarrow> ('s adaptor, 'r) action" where
  "BioSeqDatabase_getitem DBSeqRecord self key = DBSeqRecord key"

text \<open>\<open>__contains__\<close>: only the \<open>ValueError\<close> of \<open>int(value)\<close> is caught.\<close>

definition BioSeqDatabase_contains :: "BioSeqDatabase \<Rightarrow> pyval \<Rightarrow> ('s adaptor, bool) action" where
  "BioSeqDatabase_contains self value =
     (case py_int value of
        Inl (ValueError m) \<Rightarrow> return False
      | Inl e \<Rightarrow> raise e
      | Inr bioentry_id \<Rightarrow>
          bind (execute_and_fetch_col0
                  (Sql (''SELECT COUNT(bioentry_id) FROM bioentry ''
                        @ ''WHERE biodatabase_id=%s AND bioentry_id=%s;''))
                  [dbid self, PyInt bioentry_id])
            (\<lambda>col. bind (lift (item0 col)) (\<lambda>c. return (py_bool c))))"

definition BioSeqDatabase_delitem :: "BioSeqDatabase \<Rightarrow> pyval \<Rightarrow> ('s adaptor, unit) action" where
  "BioSeqDatabase_delitem self key =
     bind (BioSeqDatabase_contains self key)
       (\<lambda>present. if \<not> present then raise (KeyError key)
                  else execute
                         (Sql (''DELETE FROM bioentry ''
                               @ ''WHERE biodatabase_id=%s AND bioentry_id=%s;''))
                         [dbid self, key])"

definition BioSeqDatabase_len :: "BioSeqDatabase \<Rightarrow> ('s adaptor, int) action" where
  "BioSeqDatabase_len self =
     bind (execute_and_fetch_col0
             (Sql (''SELECT COUNT(bioentry_id) FROM bioentry '' @ ''WHERE biodatabase_id=%s;''))
             [dbid self])
       (\<lambda>col. bind (lift (item0 col)) (\<lambda>c. lift (py_int c)))"

definition BioSeqDatabase_iter :: "BioSeqDatabase \<Rightarrow> ('s adaptor, pyval list) action" where
  "BioSeqDatabase_iter self = list_bioentry_ids (dbid self)"

subsection \<open>lookup\<close>

text \<open>
  The table \<open>_allowed_lookups\<close>, and \<open>getattr(self.adaptor, lookup_name)\<close> on the
  method names it holds. The keyword arguments are the list of their (key, value)
  pairs, keys distinct as in a call.
\<close>

definition allowed_lookups :: "(string \<times> string) list" where
  "allowed_lookups =
     [(''primary_id'', ''fetch_seqid_by_identifier''),
      (''gi'', ''fetch_seqid_by_identifier''),
      (''display_id'', ''fetch_seqid_by_display_id''),
      (''name'', ''fetch_seqid_by_display_id''),
      (''accession'', ''fetch_seqid_by_accession''),
      (''version'', ''fetch_seqid_by_version'')]"

definition adaptor_getattr ::
  "string \<Rightarrow> (pyval \<Rightarrow> pyval \<Rightarrow> ('s adaptor, pyval) action) option" where
  "adaptor_getattr lookup_name =
     (if lookup_name = ''fetch_seqid_by_identifier'' then Some fetch_seqid_by_identifier
      else if lookup_name = ''fetch_seqid_by_display_id'' then Some fetch_seqid_by_display_id
      else if lookup_name = ''fetch_seqid_by_accession'' then Some fetch_seqid_by_accession
      else if lookup_name = ''fetch_seqid_by_version'' then Some fetch_seqid_by_version
      else None)"

definition lookup ::
  "(pyval \<Rightarrow> ('s adaptor, 'r) action) \<Rightarrow> BioSeqDatabase \<Rightarrow> (string \<times> pyval) list
     \<Rightarrow> ('s adaptor, 'r) action" where
  "lookup DBSeqRecord self kwargs =
     (if length kwargs \<noteq> 1 then raise (TypeError ''single key/value parameter expected'')
      else
        bind (lift (item0 kwargs))
          (\<lambda>(k, v).
            (case map_of allowed_lookups k of
               None \<Rightarrow> raise (TypeError ''lookup() expects one of %r, not %r'')
             | Some lookup_name \<Rightarrow>
                 (case adaptor_getattr lookup_name of
                    None \<Rightarrow> raise (AttributeError ''%r object has no attribute %r'')
                  | Some lookup_func \<Rightarrow>
                      bind (lookup_func (dbid self) v) (\<lambda>seqid. DBSeqRecord seqid)))))"

subsection \<open>load\<close>

text \<open>
  What \<open>load\<close> reads of a record: its \<open>id\<close> and its annotations. The rest of the
  record is for the loader.
\<close>

record seqrecord =
  record_id :: string
  annotations :: "string \<rightharpoonup> pyval"


definition duplicate_sql :: string where
  "duplicate_sql =
     ''SELECT bioentry_id FROM bioentry WHERE (identifier ''
     @ ''= '%s' AND biodatabase_id = '%s') OR (accession = ''
     @ '''%s' AND version = '%s' AND biodatabase_id = '%s')''"




text \<open>
  The only place that writes the global, in \<open>open_database\<close>: for the drivers
  \<open>psycopg2\<close> and \<open>pgdb\<close> the rule query runs, and a non-empty answer sets the
  flag; nothing ever clears it.
\<close>

definition rules_sql :: string where
  "rules_sql =
     ''SELECT ev_class FROM pg_rewrite WHERE ''
     @ ''rulename='rule_bioentry_i1' OR ''
     @ ''rulename='rule_bioentry_i2';''"

definition open_database_rules :: "string \<Rightarrow> bool \<Rightarrow> ('s adaptor, bool) action" where
  "open_database_rules driver POSTGRES_RULES_PRESENT =
     (if driver \<in> set [''psycopg2'', ''pgdb''] then
        bind (execute_and_fetchall (Sql rules_sql) [])
          (\<lambda>rows. return (if rows \<noteq> [] then True else POSTGRES_RULES_PRESENT))
      else return POSTGRES_RULES_PRESENT)"

section \<open>A relational backend\<close>

text \<open>
  The database behind the driver, for the statements whose answer a property depends
  on: the two tables the module reads, \<open>biodatabase\<close> (one row per namespace) and
  \<open>bioentry\<close> (one row per record), with the columns the statements name. This is the
  SQL engine, not code of the module: each statement below has its standard meaning on
  the tables.
\<close>

record biodatabase_row =
  d_id :: int
  d_name :: string

record bioentry_row =
  e_id :: int
  e_db :: int
  e_name :: string
  e_accession :: string
  e_identifier :: "string option"
  e_version :: int

record database =
  biodatabase :: "biodatabase_row list"
  bioentry :: "bioentry_row list"

text \<open>
  Comparing a column with an argument. A text column equals a text argument with the
  same characters. An integer column equals an integer argument, or a text that reads
  as that integer (the engine casts the literal to the column's type).
\<close>

fun text_matches :: "string \<Rightarrow> pyval \<Rightarrow> bool" where
  "text_matches col (PyStr s) = (col = s)"
| "text_matches col v = False"

fun int_matches :: "int \<Rightarrow> pyval \<Rightarrow> bool" where
  "int_matches col (PyInt i) = (col = i)"
| "int_matches col (PyStr s) = (int_of_text s = Some col)"
| "int_matches col v = False"

text \<open>
  \<open>'%s' % v\<close> writes \<open>str(v)\<close> between the quotes: \<open>None\<close> becomes the text
  \<open>None\<close>, an integer its decimal digits. The \<open>str\<close> of byte sequences and lists is
  not modelled.
\<close>

fun nat_text :: "nat \<Rightarrow> string" where
  "nat_text n =
     (if n < 10 then [char_of (48 + n)] else nat_text (n div 10) @ [char_of (48 + n mod 10)])"

fun py_str :: "pyval \<Rightarrow> string option" where
  "py_str PyNone = Some ''None''"
| "py_str (PyInt i) = Some (if i < 0 then CHR ''-'' # nat_text (nat (- i)) else nat_text (nat i))"
| "py_str (PyStr s) = Some s"
| "py_str v = None"

definition quoted_text_matches :: "string option \<Rightarrow> pyval \<Rightarrow> bool" where
  "quoted_text_matches col v = (col \<noteq> None \<and> py_str v = col)"

definition quoted_int_matches :: "int \<Rightarrow> pyval \<Rightarrow> bool" where
  "quoted_int_matches col v =
     (case py_str v of Some s \<Rightarrow> int_of_text s = Some col | None \<Rightarrow> False)"

definition wrong_arguments :: "database \<Rightarrow> (pyerr + row list) \<times> database" where
  "wrong_arguments db = (Inl (BackendError ''wrong number of arguments''), db)"

definition biosql_execute :: "sql \<Rightarrow> pyval list \<Rightarrow> database \<Rightarrow> (pyerr + row list) \<times> database" where
  "biosql_execute statement args db =
     (if statement = Sql ''SELECT COUNT(name) FROM biodatabase WHERE name=%s;'' then
        (case args of
           [v] \<Rightarrow>
             (Inr [[PyInt (int (length (filter (\<lambda>r. text_matches (d_name r) v) (biodatabase db))))]],
              db)
         | _ \<Rightarrow> wrong_arguments db)
      else if statement = Sql ''select biodatabase_id from biodatabase where name = %s'' then
        (case args of
           [v] \<Rightarrow>
             (Inr (map (\<lambda>r. [PyInt (d_id r)])
                     (filter (\<lambda>r. text_matches (d_name r) v) (biodatabase db))),
              db)
         | _ \<Rightarrow> wrong_arguments db)
      else if statement = Sql ''SELECT name FROM biodatabase'' then
        (case args of
           [] \<Rightarrow> (Inr (map (\<lambda>r. [PyStr (d_name r)]) (biodatabase db)), db)
         | _ \<Rightarrow> wrong_arguments db)
      else if statement =
          Sql ''SELECT COUNT(bioentry_id) FROM bioentry WHERE biodatabase_id=%s AND bioentry_id=%s;''
      then
        (case args of
           [d, k] \<Rightarrow>
             (Inr [[PyInt (int (length
                      (filter (\<lambda>r. int_matches (e_db r) d \<and> int_matches (e_id r) k)
                         (bioentry db))))]],
              db)
         | _ \<Rightarrow> wrong_arguments db)
      else if statement =
          Sql ''SELECT bioentry_id FROM bioentry WHERE accession = %s AND version = %s and biodatabase_id = %s''
      then
        (case args of
           [acc, ver, d] \<Rightarrow>
             (Inr (map (\<lambda>r. [PyInt (e_id r)])
                     (filter (\<lambda>r. text_matches (e_accession r) acc \<and> int_matches (e_version r) ver
                                   \<and> int_matches (e_db r) d)
                        (bioentry db))),
              db)
         | _ \<Rightarrow> wrong_arguments db)
      else
        (case statement of
           Sql_percent template [gi, d1, acc, ver, d2] \<Rightarrow>
             if template = duplicate_sql \<and> args = [] then
               (Inr (map (\<lambda>r. [PyInt (e_id r)])
                       (filter (\<lambda>r. (quoted_text_matches (e_identifier r) gi
                                        \<and> quoted_int_matches (e_db r) d1)
                                     \<or> (quoted_text_matches (Some (e_accession r)) acc
                                        \<and> quoted_int_matches (e_version r) ver
                                        \<and> quoted_int_matches (e_db r) d2))
                          (bioentry db))),
                db)
             else (Inl (BackendError ''statement not modelled''), db)
         | _ \<Rightarrow> (Inl (BackendError ''statement not modelled''), db)))"

text \<open>
  Modelled from the spec: \<open>Loader.DatabaseRemover.remove\<close> is not among the sources.
  The spec has the removal routine remove the namespace row and, transitively, every
  record row belonging to it.
\<close>

definition remove_namespace :: "pyval \<Rightarrow> database \<Rightarrow> database" where
  "remove_namespace db_id db =
     db\<lparr>bioentry := filter (\<lambda>r. \<not> int_matches (e_db r) db_id) (bioentry db),
        biodatabase := filter (\<lambda>r. \<not> int_matches (d_id r) db_id) (biodatabase db)\<rparr>"

definition DatabaseRemover_remove :: "pyval \<Rightarrow> (database adaptor, unit) action" where
  "DatabaseRemover_remove db_id a = (Inr (), a\<lparr>conn := remove_namespace db_id (conn a)\<rparr>)"



text \<open>An adaptor of either class, with or without the cursor wrapper, on the relational backend.\<close>

definition biosql_adaptor :: "adaptor_kind \<Rightarrow> bool \<Rightarrow> database \<Rightarrow> database adaptor" where
  "biosql_adaptor k w db =
     \<lparr>kind = k, wrap_cursor = w, conn = db, result_set = [], dbutils_execute = biosql_execute\<rparr>"

section \<open>The behaviour the specification describes\<close>

text \<open>
  Two definitions that follow the words of the specification, to compare the code
  with. The first resolves an accession and a version, already parsed, to the one record
  of the namespace that has them. The second is a load that inserts each record in order
  with no test before it, and counts.
\<close>

definition resolve_accession_version :: "pyval \<Rightarrow> string \<Rightarrow> string \<Rightarrow> ('s adaptor, pyval) action" where
  "resolve_accession_version d acc ver =
     bind (execute
             (Sql (''SELECT bioentry_id FROM bioentry WHERE accession = %s AND version = %s''
                   @ (if py_bool d then '' and biodatabase_id = %s'' else [])))
             ([PyStr acc, PyStr ver] @ (if py_bool d then [d] else [])))
       (\<lambda>_. bind cursor_fetchall
         (\<lambda>rv. if rv = [] then raise (IndexError ''Cannot find version %r'')
               else if length rv > 1
                 then raise (IndexError ''More than one entry with version %r'')
               else lift (item00 rv)))"


section \<open>Sample data\<close>

text \<open>
  A backend with two namespaces and one record, in the second; the two namespace
  objects; and three records to load, the first two sharing their \<open>gi\<close> identifier.
\<close>

definition sample_db :: database where
  "sample_db =
     \<lparr>biodatabase = [\<lparr>d_id = 1, d_name = ''embl''\<rparr>, \<lparr>d_id = 2, d_name = ''swissprot''\<rparr>],
      bioentry = [\<lparr>e_id = 7, e_db = 2, e_name = ''ROA1_HUMAN'', e_accession = ''X77802'',
                   e_identifier = Some ''455025'', e_version = 1\<rparr>]\<rparr>"

definition ns_embl :: BioSeqDatabase where
  "ns_embl = \<lparr>name = PyStr ''embl'', dbid = PyInt 1\<rparr>"

definition ns_swissprot :: BioSeqDatabase where
  "ns_swissprot = \<lparr>name = PyStr ''swissprot'', dbid = PyInt 2\<rparr>"

definition rec_one :: seqrecord where
  "rec_one = \<lparr>record_id = ''AF297471.1'', annotations = [''gi'' \<mapsto> PyStr ''16353'']\<rparr>"

definition rec_two :: seqrecord where
  "rec_two = \<lparr>record_id = ''Z99999.2'', annotations = [''gi'' \<mapsto> PyStr ''16353'']\<rparr>"

definition rec_three :: seqrecord where
  "rec_three = \<lparr>record_id = ''M81224.1'', annotations = Map.empty\<rparr>"

text \<open>A driver that answers every statement with one row holding one value.\<close>

definition constant_adaptor :: "adaptor_kind \<Rightarrow> bool \<Rightarrow> pyval \<Rightarrow> unit adaptor" where
  "constant_adaptor k w v =
     \<lparr>kind = k, wrap_cursor = w, conn = (), result_set = [],
      dbutils_execute = (\<lambda>statement args c. (Inr [[v]], c))\<rparr>"

section \<open>Properties\<close>

subsection \<open>Auxiliary facts\<close>

lemmas action_defs = bind_def return_def raise_def lift_def

lemma map_err_length: "map_err f xs = Inr ys \<Longrightarrow> length ys = length xs"
  by (induction xs arbitrary: ys) (auto split: sum.splits)

lemma bytearray_to_str_text: "bytearray_to_str v = Inr w \<Longrightarrow> \<not> is_bytes w"
  by (cases v) (auto simp: decode_utf8_def split: if_splits)

lemma map_err_bytearray_to_str:
  "map_err bytearray_to_str xs = Inr ys \<Longrightarrow> v \<in> set ys \<Longrightarrow> \<not> is_bytes v"
  by (induction xs arbitrary: ys) (auto split: sum.splits dest: bytearray_to_str_text)

lemma map_err_rows_bytearray_to_str:
  "map_err (map_err bytearray_to_str) rs = Inr out \<Longrightarrow> r \<in> set out \<Longrightarrow> v \<in> set r
     \<Longrightarrow> \<not> is_bytes v"
proof (induction rs arbitrary: out)
  case Nil
  then show ?case by simp
next
  case (Cons x rs)
  then show ?case
    by (auto split: sum.splits dest: map_err_bytearray_to_str)
qed

lemma split_on_no_sep: "c \<notin> set s \<Longrightarrow> split_on c s = [s]"
  by (induction s) auto

lemma split_on_one_sep:
  "c \<notin> set acc \<Longrightarrow> c \<notin> set ver \<Longrightarrow> split_on c (acc @ c # ver) = [acc, ver]"
  by (induction acc) (auto simp: split_on_no_sep)

lemma length_split_on: "length (split_on c s) = py_count s c + 1"
  by (induction s) (auto simp: py_count_def split: list.splits)

lemma convert_tuple_plain: "\<forall>v\<in>set r. \<not> is_bytes v \<Longrightarrow> convert_tuple r = Inr r"
  unfolding convert_tuple_def
  by (induction r) (auto split: pyval.splits)

lemma convert_list_plain:
  "\<forall>r\<in>set rows. \<forall>v\<in>set r. \<not> is_bytes v \<Longrightarrow> convert_list rows = Inr rows"
  unfolding convert_list_def
  by (induction rows) (auto simp: convert_tuple_plain)

lemma map_err_bytearray_plain:
  "\<forall>v\<in>set xs. \<not> is_bytes v \<Longrightarrow> map_err bytearray_to_str xs = Inr xs"
proof (induction xs)
  case Nil
  then show ?case by simp
next
  case (Cons x xs)
  then show ?case by (cases x) auto
qed

lemma map_err_item0_singletons: "map_err item0 (map (\<lambda>v. [v]) vs) = Inr vs"
  by (induction vs) (auto simp: item0_def)

lemma cursor_fetchall_plain:
  "\<forall>r\<in>set (result_set a). \<forall>v\<in>set r. \<not> is_bytes v
     \<Longrightarrow> cursor_fetchall a = (Inr (result_set a), a\<lparr>result_set := []\<rparr>)"
  by (simp add: cursor_fetchall_def Let_def convert_list_plain)

lemma execute_and_fetch_col0_plain:
  assumes "dbutils_execute a statement args (conn a) = (Inr (map (\<lambda>v. [v]) vs), c)"
    and "\<forall>v\<in>set vs. \<not> is_bytes v"
  shows "execute_and_fetch_col0 statement args a = (Inr vs, a\<lparr>conn := c, result_set := []\<rparr>)"
proof -
  let ?a1 = "a\<lparr>conn := c, result_set := map (\<lambda>v. [v]) vs\<rparr>"
  have ex: "execute statement args a = (Inr (), ?a1)"
    using assms(1) by (simp add: execute_def)
  have fa: "cursor_fetchall ?a1 = (Inr (map (\<lambda>v. [v]) vs), a\<lparr>conn := c, result_set := []\<rparr>)"
    using assms(2) cursor_fetchall_plain [of ?a1] by simp
  have base: "Adaptor_execute_and_fetch_col0 statement args a
                = (Inr vs, a\<lparr>conn := c, result_set := []\<rparr>)"
    by (simp add: Adaptor_execute_and_fetch_col0_def action_defs ex fa map_err_item0_singletons)
  show ?thesis
    using assms(2)
    by (cases "kind a")
      (simp_all add: execute_and_fetch_col0_def MysqlConnectorAdaptor_execute_and_fetch_col0_def
        action_defs base map_err_bytearray_plain)
qed

lemma mysql_col0_no_bytes:
  "kind a = MysqlConnectorAdaptor \<Longrightarrow> execute_and_fetch_col0 statement args a = (Inr out, a')
     \<Longrightarrow> v \<in> set out \<Longrightarrow> \<not> is_bytes v"
  by (auto simp: execute_and_fetch_col0_def MysqlConnectorAdaptor_execute_and_fetch_col0_def
      action_defs split: prod.splits sum.splits dest: map_err_bytearray_to_str)

lemmas sample_defs = biosql_adaptor_def sample_db_def ns_embl_def ns_swissprot_def
  rec_one_def rec_two_def rec_three_def constant_adaptor_def

lemmas int_of_text_defs = int_of_text_def py_strip_def is_space_def is_digit_def digits_value_def

subsection \<open>The tree format dispatcher\<close>

text \<open>
  C9. For every format name other than \<open>phyloxml\<close>, \<open>read\<close> and \<open>write\<close> return no
  result (\<open>None\<close>) without raising and without touching the stream; under the name
  \<open>phyloxml\<close>, and only there, they hand over to the PhyloXML parser and serializer and
  pass on what those return or raise.
\<close>

theorem treeio_unknown_format_returns_none:
  "(format \<noteq> ''phyloxml'' \<longrightarrow>
      read rd file format = (Inr None, file)
      \<and> write wr obj file format encoding = (Inr None, file))
   \<and> read rd file ''phyloxml'' =
       (case rd file of (Inl e, f') \<Rightarrow> (Inl e, f') | (Inr t, f') \<Rightarrow> (Inr (Some t), f'))
   \<and> write wr obj file ''phyloxml'' encoding =
       (case wr obj file encoding of
          (Inl e, f') \<Rightarrow> (Inl e, f') | (Inr r, f') \<Rightarrow> (Inr (Some r), f'))"
  by (simp add: read_def write_def)

theorem treeio_unknown_format_witness:
  "''newick'' \<noteq> ''phyloxml''
   \<and> read (\<lambda>f. (Inr (length f), [])) ''(A,B);'' ''newick'' = (Inr None, ''(A,B);'')
   \<and> write (\<lambda>(t::nat) f (e::string option). (Inr (), f @ ''<phyloxml/>'')) 2 ''(A,B);'' ''newick'' None
       = (Inr None, ''(A,B);'')
   \<and> read (\<lambda>f. (Inr (length f), [])) ''(A,B);'' ''phyloxml'' = (Inr (Some 6), [])"
  using treeio_unknown_format_returns_none
    [of "''newick''" "\<lambda>f. (Inr (length f), [])" "''(A,B);''"
        "\<lambda>(t::nat) f (e::string option). (Inr (), f @ ''<phyloxml/>'')" 2 None]
  by simp

subsection \<open>The driver adaptor\<close>

text \<open>
  C8. Whatever statement goes through \<open>execute_one\<close>: when the driver answers with no
  row, the assertion on the number of rows fails, an \<open>AssertionError\<close> and not a value
  the caller could test; a row is returned only when the answer holds exactly one row,
  and the plain adaptor then returns that row.
\<close>

theorem execute_one_zero_rows_assertion:
  assumes "dbutils_execute a statement args (conn a) = (Inr rows, c)"
  shows "(rows = [] \<longrightarrow>
            execute_one statement args a =
              (Inl (AssertionError ''Expected 1 response, got %d''),
               a\<lparr>conn := c, result_set := []\<rparr>))
         \<and> (\<forall>r a'. execute_one statement args a = (Inr r, a') \<longrightarrow> length rows = 1)
         \<and> (kind a = Adaptor \<and> \<not> wrap_cursor a \<longrightarrow>
              (\<forall>r. rows = [r] \<longrightarrow>
                 execute_one statement args a = (Inr r, a\<lparr>conn := c, result_set := []\<rparr>)))"
  using assms
  by (auto simp: execute_one_def Adaptor_execute_one_def MysqlConnectorAdaptor_execute_one_def
      execute_def cursor_fetchall_def convert_list_def action_defs Let_def item0_def
      split: adaptor_kind.splits sum.splits if_splits list.splits prod.splits
      dest: map_err_length)

theorem execute_one_zero_rows_witness:
  "dbutils_execute (biosql_adaptor Adaptor False sample_db)
      (Sql ''select biodatabase_id from biodatabase where name = %s'') [PyStr ''genbank'']
      (conn (biosql_adaptor Adaptor False sample_db)) = (Inr [], sample_db)
   \<and> fst (execute_one (Sql ''select biodatabase_id from biodatabase where name = %s'')
            [PyStr ''genbank''] (biosql_adaptor Adaptor False sample_db))
       = Inl (AssertionError ''Expected 1 response, got %d'')
   \<and> dbutils_execute (biosql_adaptor Adaptor False sample_db)
      (Sql ''select biodatabase_id from biodatabase where name = %s'') [PyStr ''embl'']
      (conn (biosql_adaptor Adaptor False sample_db)) = (Inr [[PyInt 1]], sample_db)
   \<and> fst (execute_one (Sql ''select biodatabase_id from biodatabase where name = %s'')
            [PyStr ''embl''] (biosql_adaptor Adaptor False sample_db))
       = Inr [PyInt 1]"
proof -
  let ?A = "biosql_adaptor Adaptor False sample_db"
  let ?S = "Sql ''select biodatabase_id from biodatabase where name = %s''"
  have h0: "dbutils_execute ?A ?S [PyStr ''genbank''] (conn ?A) = (Inr [], sample_db)"
    by (simp add: sample_defs biosql_execute_def)
  have h1: "dbutils_execute ?A ?S [PyStr ''embl''] (conn ?A) = (Inr [[PyInt 1]], sample_db)"
    by (simp add: sample_defs biosql_execute_def)
  have k: "kind ?A = Adaptor \<and> \<not> wrap_cursor ?A"
    by (simp add: biosql_adaptor_def)
  show ?thesis
    using execute_one_zero_rows_assertion [OF h0] execute_one_zero_rows_assertion [OF h1] h0 h1 k
    by simp
qed

text \<open>
  What the three overrides of \<open>MysqlConnectorAdaptor\<close> give: whatever
  \<open>execute_one\<close>, \<open>execute_and_fetchall\<close> and \<open>execute_and_fetch_col0\<close> return
  holds no byte sequence, and so for the listings, which call the column helper.
\<close>

theorem mysql_adaptor_decodes:
  assumes "kind a = MysqlConnectorAdaptor"
  shows "(\<forall>out a'. execute_one statement args a = (Inr out, a') \<longrightarrow> (\<forall>v\<in>set out. \<not> is_bytes v))
    \<and> (\<forall>out a'. execute_and_fetchall statement args a = (Inr out, a')
          \<longrightarrow> (\<forall>r\<in>set out. \<forall>v\<in>set r. \<not> is_bytes v))
    \<and> (\<forall>out a'. execute_and_fetch_col0 statement args a = (Inr out, a')
          \<longrightarrow> (\<forall>v\<in>set out. \<not> is_bytes v))
    \<and> (\<forall>out a'. list_biodatabase_names a = (Inr out, a') \<longrightarrow> (\<forall>v\<in>set out. \<not> is_bytes v))
    \<and> (\<forall>out a'. list_bioentry_ids d a = (Inr out, a') \<longrightarrow> (\<forall>v\<in>set out. \<not> is_bytes v))
    \<and> (\<forall>out a'. list_bioentry_display_ids d a = (Inr out, a')
          \<longrightarrow> (\<forall>v\<in>set out. \<not> is_bytes v))
    \<and> (\<forall>out a'. list_any_ids statement args a = (Inr out, a')
          \<longrightarrow> (\<forall>v\<in>set out. \<not> is_bytes v))
    \<and> (\<forall>out a'. fetch_seqids_by_accession d nm a = (Inr out, a')
          \<longrightarrow> (\<forall>v\<in>set out. \<not> is_bytes v))"
proof -
  have one: "\<forall>out a'. execute_one statement args a = (Inr out, a')
               \<longrightarrow> (\<forall>v\<in>set out. \<not> is_bytes v)"
    using assms
    by (auto simp: execute_one_def MysqlConnectorAdaptor_execute_one_def action_defs
        split: prod.splits sum.splits dest: map_err_bytearray_to_str)
  have all: "\<forall>out a'. execute_and_fetchall statement args a = (Inr out, a')
               \<longrightarrow> (\<forall>r\<in>set out. \<forall>v\<in>set r. \<not> is_bytes v)"
    using assms
    by (auto simp: execute_and_fetchall_def MysqlConnectorAdaptor_execute_and_fetchall_def
        action_defs split: prod.splits sum.splits dest: map_err_rows_bytearray_to_str)
  have col: "\<And>st ar out a' v. execute_and_fetch_col0 st ar a = (Inr out, a') \<Longrightarrow> v \<in> set out
               \<Longrightarrow> \<not> is_bytes v"
    using assms mysql_col0_no_bytes by blast
  have acc: "\<forall>out a'. fetch_seqids_by_accession d nm a = (Inr out, a')
               \<longrightarrow> (\<forall>v\<in>set out. \<not> is_bytes v)"
    unfolding fetch_seqids_by_accession_def Let_def using col by blast
  show ?thesis
    using one all acc col
    unfolding list_biodatabase_names_def list_bioentry_ids_def list_bioentry_display_ids_def
      list_any_ids_def
    by blast
qed

theorem mysql_adaptor_decodes_witness:
  "kind (constant_adaptor MysqlConnectorAdaptor False (PyByteArray ''ROA1_HUMAN''))
     = MysqlConnectorAdaptor
   \<and> fst (execute_one (Sql ''SELECT name FROM biodatabase'') []
            (constant_adaptor MysqlConnectorAdaptor False (PyByteArray ''ROA1_HUMAN'')))
       = Inr [PyStr ''ROA1_HUMAN'']
   \<and> fst (execute_and_fetchall (Sql ''SELECT name FROM biodatabase'') []
            (constant_adaptor MysqlConnectorAdaptor False (PyByteArray ''ROA1_HUMAN'')))
       = Inr [[PyStr ''ROA1_HUMAN'']]
   \<and> fst (execute_and_fetch_col0 (Sql ''SELECT name FROM biodatabase'') []
            (constant_adaptor MysqlConnectorAdaptor False (PyByteArray ''ROA1_HUMAN'')))
       = Inr [PyStr ''ROA1_HUMAN'']
   \<and> \<not> is_bytes (PyStr ''ROA1_HUMAN'')"
proof -
  let ?A = "constant_adaptor MysqlConnectorAdaptor False (PyByteArray ''ROA1_HUMAN'')"
  have k: "kind ?A = MysqlConnectorAdaptor"
    by (simp add: constant_adaptor_def)
  show ?thesis
    using mysql_adaptor_decodes [OF k, of "Sql ''SELECT name FROM biodatabase''" "[]" PyNone PyNone] k
    by (simp add: constant_adaptor_def execute_one_def execute_and_fetchall_def
        execute_and_fetch_col0_def MysqlConnectorAdaptor_execute_one_def
        MysqlConnectorAdaptor_execute_and_fetchall_def
        MysqlConnectorAdaptor_execute_and_fetch_col0_def Adaptor_execute_one_def
        Adaptor_execute_and_fetchall_def Adaptor_execute_and_fetch_col0_def
        execute_def cursor_fetchall_def action_defs item0_def Let_def decode_utf8_def
        in_range_def)
qed

text \<open>
  The single-record lookups read the cursor themselves: with a plain cursor they return
  the first field of the driver's row as it came, on either class of adaptor.
\<close>

lemma single_record_lookups_first_field:
  assumes "\<not> wrap_cursor a" and "\<forall>st ar c. dbutils_execute a st ar c = (Inr [[v]], c)"
  shows "fst (fetch_dbid_by_dbname nm a) = Inr v
    \<and> fst (fetch_seqid_by_display_id d nm a) = Inr v
    \<and> fst (fetch_seqid_by_accession d nm a) = Inr v
    \<and> fst (fetch_seqid_by_identifier d nm a) = Inr v
    \<and> (py_count s CHR ''.'' \<le> 1 \<longrightarrow> fst (fetch_seqid_by_version d (PyStr s) a) = Inr v)"
proof -
  have "length (split_on CHR ''.'' s) \<noteq> 0"
    by (simp add: length_split_on)
  then have ne: "split_on CHR ''.'' s \<noteq> []"
    by simp
  show ?thesis
    using assms ne
    by (simp add: fetch_dbid_by_dbname_def fetch_seqid_by_display_id_def
        fetch_seqid_by_accession_def fetch_seqid_by_identifier_def fetch_seqid_by_version_def
        execute_def cursor_fetchall_def action_defs item00_def item0_def Let_def
        length_split_on split: list.splits)
qed

text \<open>
  C5. No caller of a method of the specialised adaptor should see a byte sequence.
  The three fetch helpers and the listings keep that; the five single-record lookups do
  not. Where the driver's row holds a \<open>bytearray\<close> in its first field,
  \<open>fetch_seqid_by_accession\<close> on a \<open>MysqlConnectorAdaptor\<close> returns that
  \<open>bytearray\<close>, with the plain and with the wrapped cursor, while
  \<open>fetch_seqids_by_accession\<close> and \<open>execute_one\<close> on the same adaptor and the same
  answer return text; \<open>fetch_seqid_by_display_id\<close>, \<open>fetch_seqid_by_version\<close>,
  \<open>fetch_seqid_by_identifier\<close> and \<open>fetch_dbid_by_dbname\<close> do as
  \<open>fetch_seqid_by_accession\<close>.
\<close>

theorem single_record_lookups_return_bytes:
  "fst (fetch_seqid_by_accession (PyInt 1) (PyStr ''X77802'')
          (constant_adaptor MysqlConnectorAdaptor False (PyByteArray ''7'')))
     = Inr (PyByteArray ''7'')
   \<and> fst (fetch_seqid_by_accession (PyInt 1) (PyStr ''X77802'')
          (constant_adaptor MysqlConnectorAdaptor True (PyByteArray ''7'')))
     = Inr (PyByteArray ''7'')
   \<and> fst (fetch_seqids_by_accession (PyInt 1) (PyStr ''X77802'')
          (constant_adaptor MysqlConnectorAdaptor False (PyByteArray ''7'')))
     = Inr [PyStr ''7'']
   \<and> fst (fetch_seqid_by_display_id (PyInt 1) (PyStr ''ROA1_HUMAN'')
          (constant_adaptor MysqlConnectorAdaptor False (PyByteArray ''7'')))
     = Inr (PyByteArray ''7'')
   \<and> fst (fetch_seqid_by_version (PyInt 1) (PyStr ''X77802.1'')
          (constant_adaptor MysqlConnectorAdaptor False (PyByteArray ''7'')))
     = Inr (PyByteArray ''7'')
   \<and> fst (fetch_seqid_by_identifier (PyInt 1) (PyStr ''455025'')
          (constant_adaptor MysqlConnectorAdaptor False (PyByteArray ''7'')))
     = Inr (PyByteArray ''7'')
   \<and> fst (fetch_dbid_by_dbname (PyStr ''embl'')
          (constant_adaptor MysqlConnectorAdaptor False (PyByteArray ''7'')))
     = Inr (PyByteArray ''7'')
   \<and> fst (fetch_seqid_by_display_id (PyInt 1) (PyStr ''ROA1_HUMAN'')
          (constant_adaptor MysqlConnectorAdaptor False (PyBytes ''7'')))
     = Inr (PyBytes ''7'')
   \<and> fst (execute_one (Sql ''select bioentry_id from bioentry where accession = %s'')
          [PyStr ''X77802''] (constant_adaptor MysqlConnectorAdaptor False (PyByteArray ''7'')))
     = Inr [PyStr ''7'']
   \<and> is_bytes (PyByteArray ''7'') \<and> is_bytes (PyBytes ''7'') \<and> \<not> is_bytes (PyStr ''7'')"
  by code_simp

text \<open>
  C2. A lookup by version with a value without a dot resolves the value as accession
  with version \<open>0\<close>; a value with exactly one dot resolves the part before the dot as
  accession and the part after it as version; a value with more than one dot raises the
  format error without running a statement.
\<close>

theorem fetch_seqid_by_version_parses:
  "(CHR ''.'' \<notin> set v \<longrightarrow>
      fetch_seqid_by_version d (PyStr v) a = resolve_accession_version d v ''0'' a)
   \<and> (CHR ''.'' \<notin> set acc \<and> CHR ''.'' \<notin> set ver \<longrightarrow>
      fetch_seqid_by_version d (PyStr (acc @ CHR ''.'' # ver)) a
        = resolve_accession_version d acc ver a)
   \<and> (1 < py_count v CHR ''.'' \<longrightarrow>
      fetch_seqid_by_version d (PyStr v) a = (Inl (IndexError ''Bad version %r''), a))"
  by (simp add: fetch_seqid_by_version_def resolve_accession_version_def split_on_no_sep
      split_on_one_sep length_split_on action_defs item0_def Let_def)

theorem fetch_seqid_by_version_witness:
  "CHR ''.'' \<notin> set ''X77802'' \<and> CHR ''.'' \<notin> set ''1''
   \<and> fst (fetch_seqid_by_version (PyInt 2) (PyStr ''X77802.1'')
            (biosql_adaptor Adaptor False sample_db)) = Inr (PyInt 7)
   \<and> fetch_seqid_by_version (PyInt 2) (PyStr ''X77802'') (biosql_adaptor Adaptor False sample_db)
       = resolve_accession_version (PyInt 2) ''X77802'' ''0''
           (biosql_adaptor Adaptor False sample_db)
   \<and> 1 < py_count ''X77802.1.2'' CHR ''.''
   \<and> fetch_seqid_by_version (PyInt 2) (PyStr ''X77802.1.2'')
         (biosql_adaptor Adaptor False sample_db)
       = (Inl (IndexError ''Bad version %r''), biosql_adaptor Adaptor False sample_db)"
proof -
  let ?A = "biosql_adaptor Adaptor False sample_db"
  have r: "fst (resolve_accession_version (PyInt 2) ''X77802'' ''1'' ?A) = Inr (PyInt 7)"
    by (simp add: resolve_accession_version_def sample_defs execute_def cursor_fetchall_def
        biosql_execute_def action_defs item00_def item0_def Let_def int_of_text_defs)
  have c: "1 < py_count ''X77802.1.2'' CHR ''.''"
    by (simp add: py_count_def)
  show ?thesis
    using fetch_seqid_by_version_parses [of "''X77802''" "PyInt 2" ?A "''X77802''" "''1''"]
      fetch_seqid_by_version_parses [of "''X77802.1.2''" "PyInt 2" ?A "''X77802''" "''1''"] r c
    by simp
qed

subsection \<open>The namespace\<close>

text \<open>
  C3. For every key that \<open>int\<close> rejects with a \<open>ValueError\<close> (a text such as
  \<open>abc\<close>), the membership test of a namespace answers \<open>False\<close> without raising and
  without a query, while \<open>__delitem__\<close> with the same key raises \<open>KeyError\<close>.
\<close>

theorem contains_non_numeric_false_delitem_keyerror:
  assumes "py_int k = Inl (ValueError m)"
  shows "BioSeqDatabase_contains self k a = (Inr False, a)
         \<and> BioSeqDatabase_delitem self k a = (Inl (KeyError k), a)"
  using assms
  by (simp add: BioSeqDatabase_contains_def BioSeqDatabase_delitem_def action_defs)

theorem contains_non_numeric_witness:
  "py_int (PyStr ''abc'') = Inl (ValueError invalid_literal)
   \<and> BioSeqDatabase_contains ns_embl (PyStr ''abc'') (biosql_adaptor Adaptor False sample_db)
       = (Inr False, biosql_adaptor Adaptor False sample_db)
   \<and> BioSeqDatabase_delitem ns_embl (PyStr ''abc'') (biosql_adaptor Adaptor False sample_db)
       = (Inl (KeyError (PyStr ''abc'')), biosql_adaptor Adaptor False sample_db)"
proof -
  have h: "py_int (PyStr ''abc'') = Inl (ValueError invalid_literal)"
    by (simp add: int_of_text_defs)
  show ?thesis
    using contains_non_numeric_false_delitem_keyerror [OF h] h by simp
qed

text \<open>
  C10. Only the \<open>ValueError\<close> of the conversion is caught: for a key on which \<open>int\<close>
  raises a \<open>TypeError\<close>, such as \<open>None\<close> or a list, the membership test lets that
  \<open>TypeError\<close> through instead of answering \<open>False\<close>.
\<close>

theorem contains_type_error_propagates:
  "(py_int k = Inl (TypeError m) \<longrightarrow> BioSeqDatabase_contains self k a = (Inl (TypeError m), a))
   \<and> BioSeqDatabase_contains self PyNone a = (Inl (TypeError int_bad_type), a)
   \<and> BioSeqDatabase_contains self (PyList xs) a = (Inl (TypeError int_bad_type), a)"
  by (simp add: BioSeqDatabase_contains_def action_defs)

theorem contains_type_error_witness:
  "py_int PyNone = Inl (TypeError int_bad_type)
   \<and> BioSeqDatabase_contains ns_embl PyNone (biosql_adaptor Adaptor False sample_db)
       = (Inl (TypeError int_bad_type), biosql_adaptor Adaptor False sample_db)"
  using contains_type_error_propagates
    [of PyNone int_bad_type ns_embl "biosql_adaptor Adaptor False sample_db"]
  by simp

text \<open>
  C4. \<open>__getitem__\<close> does not look at the namespace: it gives the constructor the key
  and nothing else. In the sample backend record 7 belongs to the second namespace; the
  first namespace says it does not contain 7 and refuses to delete it with
  \<open>KeyError\<close>, yet \<open>__getitem__\<close> on the first namespace is the very call that the
  second makes.
\<close>

theorem getitem_ignores_namespace:
  "BioSeqDatabase_getitem mk ns_embl (PyInt 7) a = mk (PyInt 7) a
   \<and> BioSeqDatabase_getitem mk ns_swissprot (PyInt 7) a = mk (PyInt 7) a
   \<and> fst (BioSeqDatabase_contains ns_embl (PyInt 7) (biosql_adaptor Adaptor False sample_db))
       = Inr False
   \<and> fst (BioSeqDatabase_contains ns_swissprot (PyInt 7) (biosql_adaptor Adaptor False sample_db))
       = Inr True
   \<and> fst (BioSeqDatabase_delitem ns_embl (PyInt 7) (biosql_adaptor Adaptor False sample_db))
       = Inl (KeyError (PyInt 7))"
  by (simp add: BioSeqDatabase_getitem_def BioSeqDatabase_contains_def BioSeqDatabase_delitem_def
      ns_embl_def ns_swissprot_def biosql_adaptor_def sample_db_def execute_and_fetch_col0_def
      Adaptor_execute_and_fetch_col0_def execute_def cursor_fetchall_def biosql_execute_def
      action_defs item0_def Let_def)

text \<open>
  C6. \<open>lookup\<close> with no key or with more than one raises a \<open>TypeError\<close> and leaves the
  adaptor untouched, so before any statement; with one key outside \<open>primary_id\<close>,
  \<open>gi\<close>, \<open>display_id\<close>, \<open>name\<close>, \<open>accession\<close>, \<open>version\<close> it raises a
  \<open>TypeError\<close> as well; each of the six keys goes to its fetch method.
\<close>

theorem lookup_usage_errors:
  "(length kwargs \<noteq> 1 \<longrightarrow>
      lookup mk self kwargs a = (Inl (TypeError ''single key/value parameter expected''), a))
   \<and> (k \<notin> set [''primary_id'', ''gi'', ''display_id'', ''name'', ''accession'', ''version''] \<longrightarrow>
      lookup mk self [(k, v)] a = (Inl (TypeError ''lookup() expects one of %r, not %r''), a))
   \<and> lookup mk self [(''primary_id'', v)] a = bind (fetch_seqid_by_identifier (dbid self) v) mk a
   \<and> lookup mk self [(''gi'', v)] a = bind (fetch_seqid_by_identifier (dbid self) v) mk a
   \<and> lookup mk self [(''display_id'', v)] a = bind (fetch_seqid_by_display_id (dbid self) v) mk a
   \<and> lookup mk self [(''name'', v)] a = bind (fetch_seqid_by_display_id (dbid self) v) mk a
   \<and> lookup mk self [(''accession'', v)] a = bind (fetch_seqid_by_accession (dbid self) v) mk a
   \<and> lookup mk self [(''version'', v)] a = bind (fetch_seqid_by_version (dbid self) v) mk a"
  by (simp add: lookup_def action_defs item0_def allowed_lookups_def adaptor_getattr_def)

theorem lookup_usage_errors_witness:
  "length ([] :: (string \<times> pyval) list) \<noteq> 1
   \<and> lookup return ns_embl [] (biosql_adaptor Adaptor False sample_db)
       = (Inl (TypeError ''single key/value parameter expected''),
          biosql_adaptor Adaptor False sample_db)
   \<and> length [(''accession'', PyStr ''X77802''), (''version'', PyStr ''X77802.1'')] \<noteq> 1
   \<and> lookup return ns_embl [(''accession'', PyStr ''X77802''), (''version'', PyStr ''X77802.1'')]
         (biosql_adaptor Adaptor False sample_db)
       = (Inl (TypeError ''single key/value parameter expected''),
          biosql_adaptor Adaptor False sample_db)
   \<and> ''taxon'' \<notin> set [''primary_id'', ''gi'', ''display_id'', ''name'', ''accession'', ''version'']
   \<and> lookup return ns_embl [(''taxon'', PyInt 9606)] (biosql_adaptor Adaptor False sample_db)
       = (Inl (TypeError ''lookup() expects one of %r, not %r''),
          biosql_adaptor Adaptor False sample_db)"
  using lookup_usage_errors
      [of "[]" return ns_embl "biosql_adaptor Adaptor False sample_db" "''taxon''" "PyInt 9606"]
    lookup_usage_errors
      [of "[(''accession'', PyStr ''X77802''), (''version'', PyStr ''X77802.1'')]" return ns_embl
          "biosql_adaptor Adaptor False sample_db" "''taxon''" "PyInt 9606"]
  by simp

subsection \<open>load\<close>









subsection \<open>The namespace directory\<close>

lemma text_matches_PyStr: "text_matches x (PyStr N) = (x = N)"
  by simp

lemma DBServer_contains_biosql:
  assumes "dbutils_execute a = biosql_execute"
  shows "DBServer_contains (PyStr N) a
           = (Inr (N \<in> d_name ` set (biodatabase (conn a))), a\<lparr>result_set := []\<rparr>)"
proof -
  let ?n = "length (filter (\<lambda>r. d_name r = N) (biodatabase (conn a)))"
  have q: "dbutils_execute a (Sql ''SELECT COUNT(name) FROM biodatabase WHERE name=%s;'')
             [PyStr N] (conn a) = (Inr (map (\<lambda>v. [v]) [PyInt (int ?n)]), conn a)"
    by (simp add: assms biosql_execute_def)
  have "(?n \<noteq> 0) = (N \<in> d_name ` set (biodatabase (conn a)))"
    by (auto simp: filter_empty_conv)
  then show ?thesis
    using execute_and_fetch_col0_plain [OF q]
    by (simp add: DBServer_contains_def action_defs item0_def)
qed

lemma DBServer_iter_biosql:
  assumes "dbutils_execute a = biosql_execute"
  shows "DBServer_iter a
           = (Inr (map (\<lambda>r. PyStr (d_name r)) (biodatabase (conn a))), a\<lparr>result_set := []\<rparr>)"
proof -
  have q: "dbutils_execute a (Sql ''SELECT name FROM biodatabase'') [] (conn a)
             = (Inr (map (\<lambda>v. [v]) (map (\<lambda>r. PyStr (d_name r)) (biodatabase (conn a)))), conn a)"
    by (simp add: assms biosql_execute_def comp_def)
  show ?thesis
    using execute_and_fetch_col0_plain [OF q]
    by (simp add: DBServer_iter_def list_biodatabase_names_def)
qed

lemma fetch_dbid_by_dbname_biosql:
  assumes "dbutils_execute a = biosql_execute"
  shows "fetch_dbid_by_dbname (PyStr N) a
           = (case filter (\<lambda>r. d_name r = N) (biodatabase (conn a)) of
                [] \<Rightarrow> (Inl (KeyError (PyStr ''Cannot find biodatabase with name %r'')),
                       a\<lparr>result_set := []\<rparr>)
              | r # _ \<Rightarrow> (Inr (PyInt (d_id r)), a\<lparr>result_set := []\<rparr>))"
proof -
  let ?rows = "map (\<lambda>r. [PyInt (d_id r)]) (filter (\<lambda>r. d_name r = N) (biodatabase (conn a)))"
  let ?a1 = "a\<lparr>result_set := ?rows\<rparr>"
  have ex: "execute (Sql ''select biodatabase_id from biodatabase where name = %s'') [PyStr N] a
              = (Inr (), ?a1)"
    by (simp add: execute_def assms biosql_execute_def)
  have fa: "cursor_fetchall ?a1 = (Inr ?rows, a\<lparr>result_set := []\<rparr>)"
    using cursor_fetchall_plain [of ?a1] by simp
  show ?thesis
    by (simp add: fetch_dbid_by_dbname_def action_defs ex fa item00_def item0_def
        split: list.splits)
qed

lemma distinct_names_same_row:
  assumes "distinct (map d_name rows)" and "r \<in> set rows" and "r' \<in> set rows"
    and "d_name r = d_name r'"
  shows "r = r'"
  using assms by (meson distinct_map inj_onD)

text \<open>
  C7. On the relational backend with unique namespace names: deleting a name that is
  absent raises \<open>KeyError\<close>; deleting a name that is present removes the namespace row
  and every record row of that namespace, after which the name is not contained, is not
  among the names iterated, and a second delete raises \<open>KeyError\<close>.
\<close>

theorem DBServer_delitem_removes_namespace:
  assumes be: "dbutils_execute a = biosql_execute"
    and dist: "distinct (map d_name (biodatabase (conn a)))"
  shows "(N \<notin> d_name ` set (biodatabase (conn a)) \<longrightarrow>
            DBServer_delitem DatabaseRemover_remove (PyStr N) a
              = (Inl (KeyError (PyStr N)), a\<lparr>result_set := []\<rparr>))
     \<and> (N \<in> d_name ` set (biodatabase (conn a)) \<longrightarrow>
          (\<exists>a' i. DBServer_delitem DatabaseRemover_remove (PyStr N) a = (Inr (), a')
             \<and> (\<exists>r\<in>set (biodatabase (conn a)). d_name r = N \<and> d_id r = i)
             \<and> biodatabase (conn a') = filter (\<lambda>r. d_id r \<noteq> i) (biodatabase (conn a))
             \<and> bioentry (conn a') = filter (\<lambda>r. e_db r \<noteq> i) (bioentry (conn a))
             \<and> fst (DBServer_contains (PyStr N) a') = Inr False
             \<and> (\<exists>names. fst (DBServer_iter a') = Inr names \<and> PyStr N \<notin> set names)
             \<and> fst (DBServer_delitem DatabaseRemover_remove (PyStr N) a')
                 = Inl (KeyError (PyStr N))))"
proof (intro conjI impI)
  assume "N \<notin> d_name ` set (biodatabase (conn a))"
  then show "DBServer_delitem DatabaseRemover_remove (PyStr N) a
              = (Inl (KeyError (PyStr N)), a\<lparr>result_set := []\<rparr>)"
    by (simp add: DBServer_delitem_def action_defs DBServer_contains_biosql [OF be])
next
  assume present: "N \<in> d_name ` set (biodatabase (conn a))"
  let ?a0 = "a\<lparr>result_set := []\<rparr>"
  have be0: "dbutils_execute ?a0 = biosql_execute" using be by simp
  from present have "filter (\<lambda>r. d_name r = N) (biodatabase (conn a)) \<noteq> []"
    by (auto simp: filter_empty_conv)
  then obtain r0 rest where f: "filter (\<lambda>r. d_name r = N) (biodatabase (conn a)) = r0 # rest"
    by (cases "filter (\<lambda>r. d_name r = N) (biodatabase (conn a))") auto
  then have "r0 \<in> set (filter (\<lambda>r. d_name r = N) (biodatabase (conn a)))" by simp
  then have r0: "r0 \<in> set (biodatabase (conn a))" "d_name r0 = N" by auto
  let ?i = "d_id r0"
  let ?a' = "?a0\<lparr>conn := remove_namespace (PyInt ?i) (conn a)\<rparr>"
  have del: "DBServer_delitem DatabaseRemover_remove (PyStr N) a = (Inr (), ?a')"
    using present f
    by (simp add: DBServer_delitem_def action_defs DBServer_contains_biosql [OF be]
        fetch_dbid_by_dbname_biosql [OF be0] DatabaseRemover_remove_def)
  have be': "dbutils_execute ?a' = biosql_execute" using be by simp
  have tab: "biodatabase (conn ?a') = filter (\<lambda>r. d_id r \<noteq> ?i) (biodatabase (conn a))"
    by (simp add: remove_namespace_def)
  have ent: "bioentry (conn ?a') = filter (\<lambda>r. e_db r \<noteq> ?i) (bioentry (conn a))"
    by (simp add: remove_namespace_def)
  have gone: "N \<notin> d_name ` set (biodatabase (conn ?a'))"
  proof
    assume "N \<in> d_name ` set (biodatabase (conn ?a'))"
    then obtain r where r: "r \<in> set (biodatabase (conn a))" "d_id r \<noteq> ?i" "d_name r = N"
      unfolding tab by auto
    then have "r = r0"
      using distinct_names_same_row [OF dist r(1) r0(1)] r0(2) by simp
    with r(2) show False by simp
  qed
  have c': "fst (DBServer_contains (PyStr N) ?a') = Inr False"
    using gone by (simp add: DBServer_contains_biosql [OF be'])
  have it: "fst (DBServer_iter ?a') = Inr (map (\<lambda>r. PyStr (d_name r)) (biodatabase (conn ?a')))"
    by (simp add: DBServer_iter_biosql [OF be'])
  have notin: "PyStr N \<notin> set (map (\<lambda>r. PyStr (d_name r)) (biodatabase (conn ?a')))"
    using gone by auto
  have again: "fst (DBServer_delitem DatabaseRemover_remove (PyStr N) ?a')
                 = Inl (KeyError (PyStr N))"
    using gone by (simp add: DBServer_delitem_def action_defs DBServer_contains_biosql [OF be'])
  show "\<exists>a' i. DBServer_delitem DatabaseRemover_remove (PyStr N) a = (Inr (), a')
             \<and> (\<exists>r\<in>set (biodatabase (conn a)). d_name r = N \<and> d_id r = i)
             \<and> biodatabase (conn a') = filter (\<lambda>r. d_id r \<noteq> i) (biodatabase (conn a))
             \<and> bioentry (conn a') = filter (\<lambda>r. e_db r \<noteq> i) (bioentry (conn a))
             \<and> fst (DBServer_contains (PyStr N) a') = Inr False
             \<and> (\<exists>names. fst (DBServer_iter a') = Inr names \<and> PyStr N \<notin> set names)
             \<and> fst (DBServer_delitem DatabaseRemover_remove (PyStr N) a')
                 = Inl (KeyError (PyStr N))"
    using del r0 tab ent c' it notin again by blast
qed

theorem DBServer_delitem_witness:
  "dbutils_execute (biosql_adaptor Adaptor False sample_db) = biosql_execute
   \<and> distinct (map d_name (biodatabase (conn (biosql_adaptor Adaptor False sample_db))))
   \<and> ''genbank'' \<notin> d_name ` set (biodatabase (conn (biosql_adaptor Adaptor False sample_db)))
   \<and> fst (DBServer_delitem DatabaseRemover_remove (PyStr ''genbank'')
            (biosql_adaptor Adaptor False sample_db)) = Inl (KeyError (PyStr ''genbank''))
   \<and> ''swissprot'' \<in> d_name ` set (biodatabase (conn (biosql_adaptor Adaptor False sample_db)))
   \<and> fst (DBServer_delitem DatabaseRemover_remove (PyStr ''swissprot'')
            (biosql_adaptor Adaptor False sample_db)) = Inr ()
   \<and> conn (snd (DBServer_delitem DatabaseRemover_remove (PyStr ''swissprot'')
                  (biosql_adaptor Adaptor False sample_db)))
       = \<lparr>biodatabase = [\<lparr>d_id = 1, d_name = ''embl''\<rparr>], bioentry = []\<rparr>
   \<and> fst (DBServer_contains (PyStr ''swissprot'')
            (snd (DBServer_delitem DatabaseRemover_remove (PyStr ''swissprot'')
                    (biosql_adaptor Adaptor False sample_db)))) = Inr False
   \<and> fst (DBServer_iter
            (snd (DBServer_delitem DatabaseRemover_remove (PyStr ''swissprot'')
                    (biosql_adaptor Adaptor False sample_db)))) = Inr [PyStr ''embl'']
   \<and> fst (DBServer_delitem DatabaseRemover_remove (PyStr ''swissprot'')
            (snd (DBServer_delitem DatabaseRemover_remove (PyStr ''swissprot'')
                    (biosql_adaptor Adaptor False sample_db))))
       = Inl (KeyError (PyStr ''swissprot''))"
proof -
  let ?A = "biosql_adaptor Adaptor False sample_db"
  let ?D = "DBServer_delitem DatabaseRemover_remove"
  have be: "dbutils_execute ?A = biosql_execute"
    by (simp add: biosql_adaptor_def)
  have dist: "distinct (map d_name (biodatabase (conn ?A)))"
    by (simp add: sample_defs)
  have absent: "''genbank'' \<notin> d_name ` set (biodatabase (conn ?A))"
    by (simp add: sample_defs)
  have present: "''swissprot'' \<in> d_name ` set (biodatabase (conn ?A))"
    by (simp add: sample_defs)
  note inst = DBServer_delitem_removes_namespace [OF be dist]
  have g: "fst (?D (PyStr ''genbank'') ?A) = Inl (KeyError (PyStr ''genbank''))"
    using inst [of "''genbank''"] absent by simp
  obtain a' where d: "?D (PyStr ''swissprot'') ?A = (Inr (), a')"
    and c: "fst (DBServer_contains (PyStr ''swissprot'') a') = Inr False"
    and again: "fst (?D (PyStr ''swissprot'') a') = Inl (KeyError (PyStr ''swissprot''))"
    using inst [of "''swissprot''"] present by blast
  have a': "snd (?D (PyStr ''swissprot'') ?A) = a'"
    using d by simp
  have tables: "conn (snd (?D (PyStr ''swissprot'') ?A))
                  = \<lparr>biodatabase = [\<lparr>d_id = 1, d_name = ''embl''\<rparr>], bioentry = []\<rparr>"
    by code_simp
  have names: "fst (DBServer_iter (snd (?D (PyStr ''swissprot'') ?A))) = Inr [PyStr ''embl'']"
    by code_simp
  show ?thesis
    using be dist absent present g d c again tables names unfolding a' by simp
qed

end
